theory Spec2Isabelle
  imports Complex_Main "HOL-Library.Log_Nat" "HOL-Library.AList"
begin

section \<open>Python values used by the simulator\<close>

text \<open>
  The exceptions the modelled code can raise. A command that raises leaves the
  mutations it made before the raise in place, so every command returns an outcome
  together with the state it leaves behind.
\<close>

datatype error = KeyError | ZeroDivisionError

datatype 'a outcome = Returned 'a | Raised error

subsection \<open>Binary64 traffic multipliers\<close>

text \<open>
  The traffic multipliers are Python floats that are multiplied and divided by the
  severity factors. A finite binary64 value is kept as an integer significand and a binary
  exponent, \<open>mant * 2 ^ expo\<close>; every operation computes the exact result and rounds it to
  53 significant bits, ties to even, as IEEE 754 prescribes. The exponent is unbounded:
  overflow to infinity and subnormal numbers are outside the model.
  Speeds, positions and times are kept as real numbers.
\<close>

datatype b64 = B64 (mant: int) (expo: int)

definition b64_val :: "b64 \<Rightarrow> real" where
  "b64_val x = real_of_int (mant x) * 2 powi (expo x)"

definition round53 :: "int \<Rightarrow> int \<Rightarrow> b64" where
  "round53 m e =
     (let n = bitlen \<bar>m\<bar> in
      if n \<le> 53 then B64 m e
      else let s = nat (n - 53);
               q = \<bar>m\<bar> div 2 ^ s;
               r = \<bar>m\<bar> mod 2 ^ s;
               h = 2 ^ (s - 1);
               q' = (if h < r \<or> (r = h \<and> odd q) then q + 1 else q)
           in B64 (sgn m * q') (e + int s))"

definition b64_mul :: "b64 \<Rightarrow> b64 \<Rightarrow> b64" where
  "b64_mul x y = round53 (mant x * mant y) (expo x + expo y)"

definition b64_add :: "b64 \<Rightarrow> b64 \<Rightarrow> b64" where
  "b64_add x y =
     (let e = min (expo x) (expo y)
      in round53 (mant x * 2 ^ nat (expo x - e) + mant y * 2 ^ nat (expo y - e)) e)"

text \<open>
  Division computes the quotient of the significands to more than 53 bits, appends a
  sticky bit for a non-zero remainder, and rounds. Dividing by zero raises in Python: the
  result is \<open>None\<close> there.
\<close>

definition b64_div :: "b64 \<Rightarrow> b64 \<Rightarrow> b64 option" where
  "b64_div x y =
     (if mant y = 0 then None
      else let k = 55 + nat (bitlen \<bar>mant y\<bar>);
               N = \<bar>mant x\<bar> * 2 ^ k;
               q = N div \<bar>mant y\<bar>;
               r = N mod \<bar>mant y\<bar>;
               m' = 2 * q + (if r = 0 then 0 else 1)
           in Some (round53 (sgn (mant x) * sgn (mant y) * m') (expo x - expo y - int k - 1)))"


definition b64_less :: "b64 \<Rightarrow> b64 \<Rightarrow> bool" where
  "b64_less x y =
     (let e = min (expo x) (expo y)
      in mant x * 2 ^ nat (expo x - e) < mant y * 2 ^ nat (expo y - e))"

text \<open>\<open>min(a, b)\<close> of Python returns \<open>b\<close> when \<open>b < a\<close> and \<open>a\<close> otherwise.\<close>

definition b64_min :: "b64 \<Rightarrow> b64 \<Rightarrow> b64" where
  "b64_min a b = (if b64_less b a then b else a)"

text \<open>The float literals of the source.\<close>

definition f_1_0 :: b64 where "f_1_0 = B64 1 0"
definition f_2_0 :: b64 where "f_2_0 = B64 1 1"
definition f_4_0 :: b64 where "f_4_0 = B64 1 2"
definition f_5_0 :: b64 where "f_5_0 = B64 5 0"
definition f_10_0 :: b64 where "f_10_0 = B64 5 1"
definition f_100_0 :: b64 where "f_100_0 = B64 25 2"
definition f_0_7 :: b64 where "f_0_7 = B64 3152519739159347 (- 52)"
definition f_0_3 :: b64 where "f_0_3 = B64 5404319552844595 (- 54)"

text \<open>
  Modelled from the spec: \<open>config.DEFAULT_TRAFFIC_MULTIPLIER\<close>, whose module is not
  part of the sources; the specification gives the default multiplier as 1.0.
\<close>

definition DEFAULT_TRAFFIC_MULTIPLIER :: b64 where
  "DEFAULT_TRAFFIC_MULTIPLIER = f_1_0"


section \<open>vehicle.py\<close>

datatype VehicleType = CAR | BIKE | PEDESTRIAN

datatype VehicleStatus = WAITING | MOVING | STUCK | ARRIVED | REROUTING

fun VehicleType_value :: "VehicleType \<Rightarrow> string" where
  "VehicleType_value CAR = ''car''"
| "VehicleType_value BIKE = ''bicycle''"
| "VehicleType_value PEDESTRIAN = ''pedestrian''"

fun SPEED_MULTIPLIERS :: "VehicleType \<Rightarrow> real" where
  "SPEED_MULTIPLIERS CAR = 30.0"
| "SPEED_MULTIPLIERS BIKE = 20.0"
| "SPEED_MULTIPLIERS PEDESTRIAN = 10.0"

fun CAPACITY_USAGE :: "VehicleType \<Rightarrow> real" where
  "CAPACITY_USAGE CAR = 1.0"
| "CAPACITY_USAGE BIKE = 0.5"
| "CAPACITY_USAGE PEDESTRIAN = 0.2"

text \<open>\<open>str(n)\<close> for a non-negative integer: its decimal digits.\<close>

definition digit_char :: "nat \<Rightarrow> char" where
  "digit_char d = ''0123456789'' ! d"

fun str_nat :: "nat \<Rightarrow> string" where
  "str_nat n = (if n < 10 then [digit_char n] else str_nat (n div 10) @ [digit_char (n mod 10)])"

declare str_nat.simps [simp del]

text \<open>
  The attributes of a \<open>Vehicle\<close>. The wall-clock stamps \<open>spawn_time\<close> and
  \<open>arrival_time\<close> are telemetry that no modelled operation reads; they are left out.
  \<open>path_index\<close> is only ever set to zero or incremented, so it is a natural number.
\<close>

record Vehicle =
  vid :: string
  vtype :: VehicleType
  start_node :: string
  goal_node :: string
  current_node :: string
  next_node :: "string option"
  path :: "string list"
  path_index :: nat
  status :: VehicleStatus
  speed_multiplier :: real
  capacity_usage :: real
  total_distance :: real
  position_on_edge :: real
  current_speed :: real
  target_speed :: real
  acceleration :: real
  wait_time :: real
  reroute_count :: nat

text \<open>
  \<open>Vehicle.__init__\<close>. The class attribute \<open>Vehicle._id_counter\<close> is shared by every
  vehicle and every registry of the process, so it is threaded through as a value of its
  own: the constructor takes the counter and returns the incremented counter with the object.
\<close>

definition Vehicle_init ::
  "nat \<Rightarrow> VehicleType \<Rightarrow> string \<Rightarrow> string \<Rightarrow> string list option \<Rightarrow> nat \<times> Vehicle" where
  "Vehicle_init id_counter vehicle_type start goal path_arg =
     (let c = id_counter + 1 in
      (c, \<lparr> vid = VehicleType_value vehicle_type @ ''_'' @ str_nat c,
            vtype = vehicle_type,
            start_node = start,
            goal_node = goal,
            current_node = start,
            next_node = None,
            path = (case path_arg of None \<Rightarrow> [] | Some p \<Rightarrow> p),
            path_index = 0,
            status = WAITING,
            speed_multiplier = SPEED_MULTIPLIERS vehicle_type,
            capacity_usage = CAPACITY_USAGE vehicle_type,
            total_distance = 0.0,
            position_on_edge = 0.0,
            current_speed = 0.0,
            target_speed = SPEED_MULTIPLIERS vehicle_type,
            acceleration = 1.5,
            wait_time = 0.0,
            reroute_count = 0 \<rparr>))"

definition set_path :: "string list \<Rightarrow> Vehicle \<Rightarrow> Vehicle" where
  "set_path p v =
     (let v1 = v\<lparr> path := p, path_index := 0 \<rparr> in
      if length p > 1 then v1\<lparr> next_node := Some (p ! 1), status := MOVING \<rparr>
      else v1\<lparr> next_node := None \<rparr>)"



definition slow_down_for_vehicle_ahead :: "real \<Rightarrow> real \<Rightarrow> Vehicle \<Rightarrow> Vehicle" where
  "slow_down_for_vehicle_ahead distance_to_vehicle min_distance v =
     (if distance_to_vehicle < min_distance
      then v\<lparr> target_speed := 0.0, status := STUCK \<rparr>
      else if distance_to_vehicle < min_distance * 2
      then v\<lparr> target_speed := speed_multiplier v * (distance_to_vehicle / (min_distance * 2)),
               status := STUCK \<rparr>
      else let v1 = v\<lparr> target_speed := speed_multiplier v \<rparr>
           in if status v1 = STUCK then v1\<lparr> status := MOVING \<rparr> else v1)"



definition increment_reroute :: "Vehicle \<Rightarrow> Vehicle" where
  "increment_reroute v = v\<lparr> reroute_count := reroute_count v + 1, status := REROUTING \<rparr>"

subsection \<open>VehicleManager\<close>

text \<open>
  \<open>active_vehicles\<close> is a Python set; the list is the order in which the set is
  iterated, which Python leaves open, and holds every identifier once.
\<close>

record VehicleManager =
  vehicles :: "string \<rightharpoonup> Vehicle"
  active_vehicles :: "string list"
  edge_occupancy :: "(string \<times> string) \<rightharpoonup> string list"

definition VehicleManager_init :: VehicleManager where
  "VehicleManager_init = \<lparr> vehicles = Map.empty, active_vehicles = [], edge_occupancy = Map.empty \<rparr>"

definition add_vehicle :: "Vehicle \<Rightarrow> VehicleManager \<Rightarrow> VehicleManager" where
  "add_vehicle v m =
     (let m1 = m\<lparr> vehicles := (vehicles m)(vid v \<mapsto> v) \<rparr> in
      if status v \<noteq> ARRIVED \<and> vid v \<notin> set (active_vehicles m1)
      then m1\<lparr> active_vehicles := active_vehicles m1 @ [vid v] \<rparr>
      else m1)"


definition get_vehicle :: "VehicleManager \<Rightarrow> string \<Rightarrow> Vehicle option" where
  "get_vehicle m vehicle_id = vehicles m vehicle_id"







text \<open>
  \<open>VehicleManager.reset\<close> clears the registry and assigns zero to the class attribute
  \<open>Vehicle._id_counter\<close>: it returns the new counter with the cleared registry.
\<close>

definition VehicleManager_reset :: "nat \<times> VehicleManager \<Rightarrow> nat \<times> VehicleManager" where
  "VehicleManager_reset cm =
     (0, (snd cm)\<lparr> vehicles := Map.empty, active_vehicles := [], edge_occupancy := Map.empty \<rparr>)"


section \<open>multi_vehicle_simulator.py\<close>

type_synonym edge = "string \<times> string"

datatype Severity = Minor | Moderate | Severe

fun Severity_value :: "Severity \<Rightarrow> string" where
  "Severity_value Minor = ''minor''"
| "Severity_value Moderate = ''moderate''"
| "Severity_value Severe = ''severe''"

text \<open>The dictionary \<open>severity_multipliers\<close> of \<open>create_accident\<close> and \<open>resolve_accident\<close>.\<close>

fun severity_multipliers :: "Severity \<Rightarrow> b64" where
  "severity_multipliers Minor = f_2_0"
| "severity_multipliers Moderate = f_4_0"
| "severity_multipliers Severe = f_10_0"

record accident =
  acc_id :: string
  acc_from_node :: string
  acc_to_node :: string
  acc_severity :: Severity
  acc_created_at :: real
  acc_duration :: int

record blocked_road =
  br_from_node :: string
  br_to_node :: string
  br_reason :: string
  br_blocked_at :: real

text \<open>
  The graph is a dictionary from a node to the list of its outgoing edges; only the
  target of an edge is read by the simulator, the costs are read by the path finder.
  \<open>accidents\<close> is a dictionary whose iteration order (insertion order) the tick uses.
\<close>

record MultiVehicleSimulator =
  graph :: "(string \<times> string list) list"
  heuristic_coords :: "string \<rightharpoonup> real \<times> real"
  vehicle_manager :: VehicleManager
  traffic_multipliers :: "edge \<rightharpoonup> b64"
  simulation_step :: nat
  is_running :: bool
  total_spawned :: nat
  last_update_time :: real
  edge_lengths :: "edge \<rightharpoonup> real"
  start_time :: real
  blocked_roads :: "edge \<rightharpoonup> blocked_road"
  accidents :: "(string \<times> accident) list"
  accident_counter :: nat
  congestion_points :: "edge list"

text \<open>
  The collaborators whose modules are not part of the sources are parameters:
  \<open>pathfinder.a_star\<close> (an empty path stands for its falsy results) and the two
  \<open>TrafficAnalyzer\<close> methods the simulator calls. The analyzer holds a reference to the
  registry, so its answers may depend on it.
\<close>

record collaborators =
  a_star :: "(string \<times> string list) list \<Rightarrow> (string \<rightharpoonup> real \<times> real) \<Rightarrow> (edge \<rightharpoonup> b64)
               \<Rightarrow> string \<Rightarrow> string \<Rightarrow> string \<Rightarrow> string list \<times> real"
  get_congestion_probability :: "VehicleManager \<Rightarrow> string \<Rightarrow> string \<Rightarrow> real"
  update_traffic_multipliers :: "VehicleManager \<Rightarrow> (edge \<rightharpoonup> b64) \<Rightarrow> (edge \<rightharpoonup> b64)"

text \<open>\<open>random.choice(xs)\<close> on a non-empty list, the draw given as an index.\<close>

definition random_choice :: "'a list \<Rightarrow> nat \<Rightarrow> 'a" where
  "random_choice xs k = xs ! (k mod length xs)"

definition graph_edges :: "(string \<times> string list) list \<Rightarrow> edge list" where
  "graph_edges g = concat (map (\<lambda>(node, tos). map (\<lambda>to_node. (node, to_node)) tos) g)"

definition calculate_edge_lengths :: "MultiVehicleSimulator \<Rightarrow> MultiVehicleSimulator" where
  "calculate_edge_lengths s =
     s\<lparr> edge_lengths :=
          foldl (\<lambda>m (node, to_node).
                   case heuristic_coords s node of
                     None \<Rightarrow> m
                   | Some (x1, y1) \<Rightarrow>
                       (case heuristic_coords s to_node of
                          None \<Rightarrow> m
                        | Some (x2, y2) \<Rightarrow>
                            let distance = sqrt ((x2 - x1)\<^sup>2 + (y2 - y1)\<^sup>2) * 110
                            in m((node, to_node) \<mapsto> max distance 50.0)))
                (edge_lengths s) (graph_edges (graph s)) \<rparr>"

text \<open>
  \<open>_identify_congestion_hotspots\<close>: the nodes sorted by out-degree, largest first (the
  sort is stable), the first fifth of them (at least one), and of their edges those whose
  draw of \<open>random.random()\<close> is below 0.3; the draws are given by their position.
\<close>

definition identify_congestion_hotspots ::
  "(nat \<Rightarrow> real) \<Rightarrow> MultiVehicleSimulator \<Rightarrow> MultiVehicleSimulator" where
  "identify_congestion_hotspots draws s =
     (let sorted_nodes = sort_key (\<lambda>(node, tos). - int (length tos)) (graph s);
          hotspot_count = max 1 (length sorted_nodes div 5);
          candidates = graph_edges (take hotspot_count sorted_nodes)
      in s\<lparr> congestion_points := congestion_points s @
               map fst (filter (\<lambda>(e, i). draws i < 0.3) (zip candidates [0 ..< length candidates])) \<rparr>)"

definition initialize_traffic_multipliers :: "MultiVehicleSimulator \<Rightarrow> MultiVehicleSimulator" where
  "initialize_traffic_multipliers s =
     s\<lparr> traffic_multipliers :=
          foldl (\<lambda>m e. m(e \<mapsto> DEFAULT_TRAFFIC_MULTIPLIER)) (traffic_multipliers s)
                (graph_edges (graph s)) \<rparr>"

definition MultiVehicleSimulator_init ::
  "(string \<times> string list) list \<Rightarrow> (string \<rightharpoonup> real \<times> real) \<Rightarrow> real \<Rightarrow> (nat \<Rightarrow> real)
     \<Rightarrow> MultiVehicleSimulator" where
  "MultiVehicleSimulator_init g coords now draws =
     identify_congestion_hotspots draws
       (calculate_edge_lengths
          (initialize_traffic_multipliers
             \<lparr> graph = g,
               heuristic_coords = coords,
               vehicle_manager = VehicleManager_init,
               traffic_multipliers = Map.empty,
               simulation_step = 0,
               is_running = False,
               total_spawned = 0,
               last_update_time = now,
               edge_lengths = Map.empty,
               start_time = now,
               blocked_roads = Map.empty,
               accidents = [],
               accident_counter = 0,
               congestion_points = [] \<rparr>))"

subsection \<open>Accidents and blocked roads\<close>

text \<open>The random draws and the clock reading of one call of \<open>create_accident\<close>.\<close>

record accident_draws =
  pick_node :: nat
  pick_edge :: nat
  pick_severity :: Severity
  pick_created_at :: real
  pick_duration :: int

text \<open>
  \<open>create_accident\<close>. The accident is counted and stored before the multiplier is
  updated; the in-place multiplication reads the dictionary entry and raises \<open>KeyError\<close>
  when the edge has none.
\<close>

definition record_accident ::
  "accident_draws \<Rightarrow> string \<Rightarrow> string \<Rightarrow> MultiVehicleSimulator
     \<Rightarrow> accident option outcome \<times> MultiVehicleSimulator" where
  "record_accident d from_node to_node s =
     (let c = accident_counter s + 1;
          accident_id = ''accident_'' @ str_nat c;
          acc = \<lparr> acc_id = accident_id, acc_from_node = from_node, acc_to_node = to_node,
                  acc_severity = pick_severity d, acc_created_at = pick_created_at d,
                  acc_duration = pick_duration d \<rparr>;
          s1 = s\<lparr> accident_counter := c,
                   accidents := AList.update accident_id acc (accidents s) \<rparr>
      in case traffic_multipliers s1 (from_node, to_node) of
           None \<Rightarrow> (Raised KeyError, s1)
         | Some m \<Rightarrow>
             (Returned (Some acc),
              s1\<lparr> traffic_multipliers := (traffic_multipliers s1)
                     ((from_node, to_node) \<mapsto> b64_mul m (severity_multipliers (acc_severity acc))) \<rparr>))"

definition create_accident ::
  "accident_draws \<Rightarrow> string option \<Rightarrow> string option \<Rightarrow> MultiVehicleSimulator
     \<Rightarrow> accident option outcome \<times> MultiVehicleSimulator" where
  "create_accident d from_arg to_arg s =
     (if from_arg = None \<or> to_arg = None
      then let nodes = map fst (graph s) in
           if nodes = [] then (Returned None, s)
           else let from_node = random_choice nodes (pick_node d);
                    edges = (case map_of (graph s) from_node of None \<Rightarrow> [] | Some l \<Rightarrow> l)
                in if edges = [] then (Returned None, s)
                   else record_accident d from_node (random_choice edges (pick_edge d)) s
      else record_accident d (the from_arg) (the to_arg) s)"

text \<open>
  \<open>resolve_accident\<close>. The in-place division raises \<open>KeyError\<close> when the edge has no
  multiplier; the accident is deleted only after the division.
\<close>

definition resolve_accident ::
  "string \<Rightarrow> MultiVehicleSimulator \<Rightarrow> bool outcome \<times> MultiVehicleSimulator" where
  "resolve_accident accident_id s =
     (case map_of (accidents s) accident_id of
        None \<Rightarrow> (Returned False, s)
      | Some acc \<Rightarrow>
          let e = (acc_from_node acc, acc_to_node acc) in
          (case traffic_multipliers s e of
             None \<Rightarrow> (Raised KeyError, s)
           | Some m \<Rightarrow>
               (case b64_div m (severity_multipliers (acc_severity acc)) of
                  None \<Rightarrow> (Raised ZeroDivisionError, s)
                | Some m' \<Rightarrow>
                    (Returned True,
                     s\<lparr> traffic_multipliers := (traffic_multipliers s)(e \<mapsto> m'),
                        accidents := AList.delete accident_id (accidents s) \<rparr>))))"

definition block_road ::
  "string \<Rightarrow> string \<Rightarrow> string \<Rightarrow> real \<Rightarrow> MultiVehicleSimulator \<Rightarrow> bool \<times> MultiVehicleSimulator" where
  "block_road from_node to_node reason now s =
     (let e = (from_node, to_node) in
      if e \<notin> dom (traffic_multipliers s) then (False, s)
      else (True,
            s\<lparr> blocked_roads := (blocked_roads s)
                   (e \<mapsto> \<lparr> br_from_node = from_node, br_to_node = to_node,
                           br_reason = reason, br_blocked_at = now \<rparr>),
               traffic_multipliers := (traffic_multipliers s)(e \<mapsto> f_100_0) \<rparr>))"

definition unblock_road ::
  "string \<Rightarrow> string \<Rightarrow> MultiVehicleSimulator \<Rightarrow> bool \<times> MultiVehicleSimulator" where
  "unblock_road from_node to_node s =
     (let e = (from_node, to_node) in
      if e \<notin> dom (blocked_roads s) then (False, s)
      else (True,
            s\<lparr> blocked_roads := (blocked_roads s)(e := None),
               traffic_multipliers := (traffic_multipliers s)(e \<mapsto> DEFAULT_TRAFFIC_MULTIPLIER) \<rparr>))"


subsection \<open>Spawning and rerouting\<close>

record spawn_draws =
  pick_start :: nat
  pick_goal :: nat

text \<open>
  \<open>spawn_vehicle\<close> works on the class-level identifier counter and on the simulator. The
  vehicle is constructed, and the counter incremented, before the path is searched.
\<close>

definition spawn_vehicle ::
  "collaborators \<Rightarrow> spawn_draws \<Rightarrow> VehicleType \<Rightarrow> string option \<Rightarrow> string option
     \<Rightarrow> nat \<times> MultiVehicleSimulator \<Rightarrow> Vehicle option \<times> nat \<times> MultiVehicleSimulator" where
  "spawn_vehicle ext d vehicle_type start_arg goal_arg cs =
     (let id_counter = fst cs; s = snd cs; nodes = map fst (graph s) in
      if nodes = [] then (None, cs)
      else let start = (case start_arg of None \<Rightarrow> random_choice nodes (pick_start d) | Some n \<Rightarrow> n);
               available_goals = filter (\<lambda>n. n \<noteq> start) nodes
           in if goal_arg = None \<and> available_goals = [] then (None, cs)
              else let goal = (case goal_arg of None \<Rightarrow> random_choice available_goals (pick_goal d)
                                              | Some n \<Rightarrow> n);
                       (c, vehicle) = Vehicle_init id_counter vehicle_type start goal None;
                       (p, cost) = a_star ext (graph s) (heuristic_coords s) (traffic_multipliers s)
                                     start goal (VehicleType_value vehicle_type)
                   in if p \<noteq> []
                      then let vehicle1 = set_path p vehicle
                           in (Some vehicle1,
                               c, s\<lparr> vehicle_manager := add_vehicle vehicle1 (vehicle_manager s),
                                     total_spawned := total_spawned s + 1 \<rparr>)
                      else (None, c, s))"



definition reroute_vehicle :: "collaborators \<Rightarrow> MultiVehicleSimulator \<Rightarrow> Vehicle \<Rightarrow> Vehicle" where
  "reroute_vehicle ext s v =
     (let (new_path, new_cost) =
            a_star ext (graph s) (heuristic_coords s) (traffic_multipliers s)
              (current_node v) (goal_node v) (VehicleType_value (vtype v))
      in if new_path \<noteq> [] \<and> new_path \<noteq> drop (path_index v) (path v)
         then (increment_reroute (set_path new_path v))
                \<lparr> path_index := 0, target_speed := speed_multiplier v, status := MOVING \<rparr>
         else v)"


subsection \<open>The tick\<close>















definition hotspot_step ::
  "real \<Rightarrow> (nat \<Rightarrow> b64) \<Rightarrow> (edge \<rightharpoonup> b64) \<Rightarrow> edge \<times> nat \<Rightarrow> (edge \<rightharpoonup> b64)" where
  "hotspot_step congestion_factor penalty m ei =
     (case m (fst ei) of
        None \<Rightarrow> m
      | Some base_multiplier \<Rightarrow>
          if congestion_factor > 0.3
          then let new_multiplier = b64_min (b64_mul base_multiplier (penalty (snd ei))) f_5_0
               in m(fst ei \<mapsto> b64_add (b64_mul base_multiplier f_0_7) (b64_mul new_multiplier f_0_3))
          else m)"

definition hotspot_drift :: "real \<Rightarrow> (nat \<Rightarrow> b64) \<Rightarrow> MultiVehicleSimulator \<Rightarrow> MultiVehicleSimulator" where
  "hotspot_drift congestion_factor penalty s =
     s\<lparr> traffic_multipliers :=
          foldl (hotspot_step congestion_factor penalty) (traffic_multipliers s)
                (zip (congestion_points s) [0 ..< length (congestion_points s)]) \<rparr>"



definition reset_simulation :: "nat \<times> MultiVehicleSimulator \<Rightarrow> nat \<times> MultiVehicleSimulator" where
  "reset_simulation cs =
     (let (c, m) = VehicleManager_reset (fst cs, vehicle_manager (snd cs));
          s1 = initialize_traffic_multipliers ((snd cs)\<lparr> vehicle_manager := m \<rparr>)
      in (c, s1\<lparr> simulation_step := 0, is_running := False, total_spawned := 0 \<rparr>))"


section \<open>Executions\<close>




text \<open>
  A Python process: the class attribute \<open>Vehicle._id_counter\<close> and the simulators (each
  with its own registry) that exist in it.
\<close>

record process =
  id_counter :: nat
  simulators :: "MultiVehicleSimulator list"

record spawn_request =
  req_simulator :: nat
  req_draws :: spawn_draws
  req_type :: VehicleType
  req_start :: "string option"
  req_goal :: "string option"

definition spawn_in :: "collaborators \<Rightarrow> spawn_request \<Rightarrow> process \<Rightarrow> Vehicle option \<times> process" where
  "spawn_in ext r p =
     (if req_simulator r < length (simulators p)
      then let (res, c, s) = spawn_vehicle ext (req_draws r) (req_type r) (req_start r) (req_goal r)
                               (id_counter p, simulators p ! req_simulator r)
           in (res, p\<lparr> id_counter := c, simulators := (simulators p)[req_simulator r := s] \<rparr>)
      else (None, p))"

fun spawn_all :: "collaborators \<Rightarrow> spawn_request list \<Rightarrow> process \<Rightarrow> Vehicle list \<times> process" where
  "spawn_all ext [] p = ([], p)"
| "spawn_all ext (r # rs) p =
     (let (res, p1) = spawn_in ext r p;
          (vs, p2) = spawn_all ext rs p1
      in ((case res of None \<Rightarrow> vs | Some v \<Rightarrow> v # vs), p2))"

definition reset_in :: "nat \<Rightarrow> process \<Rightarrow> process" where
  "reset_in i p =
     (if i < length (simulators p)
      then let (c, s) = reset_simulation (id_counter p, simulators p ! i)
           in p\<lparr> id_counter := c, simulators := (simulators p)[i := s] \<rparr>
      else p)"


subsection \<open>A concrete network\<close>

text \<open>
  The network of scenario C: \<open>A \<rightarrow> B \<rightarrow> D\<close> and \<open>A \<rightarrow> C \<rightarrow> D\<close>, without coordinates. The
  path finder of the example goes from A to D through B unless one of the two edges of
  that route carries the multiplier of a blocked road, and finds no other route; the
  analyzer of the example reports no congestion and leaves the multipliers alone.
\<close>

definition ex_graph :: "(string \<times> string list) list" where
  "ex_graph = [(''A'', [''B'', ''C'']), (''B'', [''D'']), (''C'', [''D'']), (''D'', [])]"

definition ex_a_star ::
  "(string \<times> string list) list \<Rightarrow> (string \<rightharpoonup> real \<times> real) \<Rightarrow> (edge \<rightharpoonup> b64)
     \<Rightarrow> string \<Rightarrow> string \<Rightarrow> string \<Rightarrow> string list \<times> real" where
  "ex_a_star g coords mults start goal mode =
     (if start = ''A'' \<and> goal = ''D''
      then (if mults (''A'', ''B'') = Some f_100_0 \<or> mults (''B'', ''D'') = Some f_100_0
            then ([''A'', ''C'', ''D''], 4) else ([''A'', ''B'', ''D''], 2))
      else ([], 0))"

definition ex_ext :: collaborators where
  "ex_ext = \<lparr> a_star = ex_a_star,
              get_congestion_probability = (\<lambda>m u v. 0),
              update_traffic_multipliers = (\<lambda>m mults. mults) \<rparr>"

definition ex_sim :: MultiVehicleSimulator where
  "ex_sim = MultiVehicleSimulator_init ex_graph Map.empty 0 (\<lambda>i. 1)"

definition ex_spawn_draws :: spawn_draws where
  "ex_spawn_draws = \<lparr> pick_start = 0, pick_goal = 0 \<rparr>"

definition ex_accident_draws :: "Severity \<Rightarrow> accident_draws" where
  "ex_accident_draws sev =
     \<lparr> pick_node = 0, pick_edge = 0, pick_severity = sev, pick_created_at = 0, pick_duration = 30 \<rparr>"


text \<open>A car from A to D in the example simulator: \<open>car_1\<close> on the path A, B, D.\<close>

definition ex_spawned :: "Vehicle option \<times> nat \<times> MultiVehicleSimulator" where
  "ex_spawned = spawn_vehicle ex_ext ex_spawn_draws CAR (Some ''A'') (Some ''D'') (0, ex_sim)"

definition ex_car :: Vehicle where
  "ex_car = set_path [''A'', ''B'', ''D''] (snd (Vehicle_init 0 CAR ''A'' ''D'' None))"

definition ex_blocked_AB :: MultiVehicleSimulator where
  "ex_blocked_AB = snd (block_road ''A'' ''B'' ''road_work'' 1 (snd (snd ex_spawned)))"



text \<open>
  The example simulator after \<open>block_road("A", "B")\<close> and an accident of moderate severity
  on the edge from A to C.
\<close>

definition ex_busy :: MultiVehicleSimulator where
  "ex_busy = snd (create_accident (ex_accident_draws Moderate) (Some ''A'') (Some ''C'')
                    (snd (block_road ''A'' ''B'' ''construction'' 1 ex_sim)))"


text \<open>The blocked road from A to B of the example after an accident of minor severity on it.\<close>

definition ex_blocked_then_accident :: MultiVehicleSimulator where
  "ex_blocked_then_accident =
     snd (create_accident (ex_accident_draws Minor) (Some ''A'') (Some ''B'') ex_blocked_AB)"

text \<open>
  A process with two simulators of the example network, and three requests: a car from A
  to D in the first simulator, a car from D to A in the second (no route exists), and a
  car from A to D in the second.
\<close>

definition ex_process :: process where
  "ex_process = \<lparr> id_counter = 0, simulators = [ex_sim, ex_sim] \<rparr>"

definition ex_request :: "nat \<Rightarrow> string \<Rightarrow> string \<Rightarrow> spawn_request" where
  "ex_request i a b = \<lparr> req_simulator = i, req_draws = ex_spawn_draws, req_type = CAR,
                         req_start = Some a, req_goal = Some b \<rparr>"

definition ex_requests :: "spawn_request list" where
  "ex_requests = [ex_request 0 ''A'' ''D'', ex_request 1 ''D'' ''A'', ex_request 1 ''A'' ''D'']"

text \<open>A simulator that has the graph and the multipliers of the example.\<close>

definition ex_like :: "MultiVehicleSimulator \<Rightarrow> bool" where
  "ex_like s = (graph s = ex_graph \<and> traffic_multipliers s = traffic_multipliers ex_sim)"

subsection \<open>Invariants\<close>




section \<open>Facts about the concrete network\<close>

lemma str_nat_1: "str_nat (Suc 0) = ''1''"
  by (simp add: str_nat.simps digit_char_def)

lemma ex_graph_edges:
  "graph_edges ex_graph = [(''A'',''B''),(''A'',''C''),(''B'',''D''),(''C'',''D'')]"
  by (simp add: graph_edges_def ex_graph_def)

lemma ex_sim_eq:
  "ex_sim = \<lparr> graph = ex_graph, heuristic_coords = Map.empty, vehicle_manager = VehicleManager_init,
     traffic_multipliers = [(''A'',''B'') \<mapsto> f_1_0, (''A'',''C'') \<mapsto> f_1_0,
                            (''B'',''D'') \<mapsto> f_1_0, (''C'',''D'') \<mapsto> f_1_0],
     simulation_step = 0, is_running = False, total_spawned = 0, last_update_time = 0,
     edge_lengths = Map.empty, start_time = 0, blocked_roads = Map.empty, accidents = [],
     accident_counter = 0, congestion_points = [] \<rparr>"
  by (simp add: ex_sim_def MultiVehicleSimulator_init_def identify_congestion_hotspots_def
      calculate_edge_lengths_def initialize_traffic_multipliers_def ex_graph_edges
      DEFAULT_TRAFFIC_MULTIPLIER_def Let_def)

lemma ex_sim_fields:
  "graph ex_sim = ex_graph" "heuristic_coords ex_sim = Map.empty"
  "vehicle_manager ex_sim = VehicleManager_init"
  "traffic_multipliers ex_sim = [(''A'',''B'') \<mapsto> f_1_0, (''A'',''C'') \<mapsto> f_1_0,
                                 (''B'',''D'') \<mapsto> f_1_0, (''C'',''D'') \<mapsto> f_1_0]"
  "blocked_roads ex_sim = Map.empty" "edge_lengths ex_sim = Map.empty"
  "accidents ex_sim = []" "accident_counter ex_sim = 0" "congestion_points ex_sim = []"
  "simulation_step ex_sim = 0" "last_update_time ex_sim = 0" "start_time ex_sim = 0"
  "total_spawned ex_sim = 0"
  by (simp_all add: ex_sim_eq)

lemma ex_car_eq: "ex_car = \<lparr> vid = ''car_1'', vtype = CAR, start_node = ''A'', goal_node = ''D'',
   current_node = ''A'', next_node = Some ''B'', path = [''A'',''B'',''D''], path_index = 0,
   status = MOVING, speed_multiplier = 30, capacity_usage = 1, total_distance = 0,
   position_on_edge = 0, current_speed = 0, target_speed = 30, acceleration = 3/2,
   wait_time = 0, reroute_count = 0 \<rparr>"
  by (simp add: ex_car_def Vehicle_init_def set_path_def str_nat_1 Let_def)

lemma ex_init_counter: "fst (Vehicle_init 0 CAR ''A'' ''D'' None) = 1"
  by (simp add: Vehicle_init_def)

lemma ex_car_fields:
  "vid ex_car = ''car_1''" "status ex_car = MOVING" "next_node ex_car = Some ''B''"
  "current_node ex_car = ''A''" "path ex_car = [''A'',''B'',''D'']" "path_index ex_car = 0"
  "reroute_count ex_car = 0" "position_on_edge ex_car = 0" "current_speed ex_car = 0"
  "target_speed ex_car = 30" "speed_multiplier ex_car = 30" "acceleration ex_car = 3/2"
  "goal_node ex_car = ''D''" "vtype ex_car = CAR"
  by (simp_all add: ex_car_eq)

lemma ex_spawned_eq:
  "ex_spawned = (Some ex_car, 1, ex_sim\<lparr> vehicle_manager :=
      \<lparr> vehicles = [''car_1'' \<mapsto> ex_car], active_vehicles = [''car_1''], edge_occupancy = Map.empty \<rparr>,
      total_spawned := 1 \<rparr>)"
proof -
  have nodes: "map fst ex_graph = [''A'', ''B'', ''C'', ''D'']" "ex_graph \<noteq> []"
    by (simp_all add: ex_graph_def)
  have route: "a_star ex_ext ex_graph Map.empty (traffic_multipliers ex_sim) ''A'' ''D'' ''car''
      = ([''A'', ''B'', ''D''], 2)"
    by (simp add: ex_ext_def ex_a_star_def ex_sim_fields f_1_0_def f_100_0_def)
  have add: "add_vehicle ex_car VehicleManager_init
      = \<lparr> vehicles = [''car_1'' \<mapsto> ex_car], active_vehicles = [''car_1''], edge_occupancy = Map.empty \<rparr>"
    by (simp add: add_vehicle_def VehicleManager_init_def ex_car_fields Let_def)
  show ?thesis
    unfolding ex_spawned_def spawn_vehicle_def
    by (simp add: ex_sim_fields(1,2,3,13) nodes route add Let_def case_prod_beta ex_init_counter
        ex_car_def[symmetric])
qed

lemma ex_blocked_AB_fields:
  "graph ex_blocked_AB = ex_graph" "heuristic_coords ex_blocked_AB = Map.empty"
  "traffic_multipliers ex_blocked_AB (''A'', ''B'') = Some f_100_0"
  "blocked_roads ex_blocked_AB = [(''A'', ''B'') \<mapsto>
      \<lparr> br_from_node = ''A'', br_to_node = ''B'', br_reason = ''road_work'', br_blocked_at = 1 \<rparr>]"
  by (simp_all add: ex_blocked_AB_def block_road_def ex_spawned_eq ex_sim_fields Let_def)


section \<open>Position update\<close>



section \<open>Rerouting\<close>

lemma reroute_vehicle_adopts:
  assumes "a_star ext (graph s) (heuristic_coords s) (traffic_multipliers s)
             (current_node v) (goal_node v) (VehicleType_value (vtype v)) = (p, c)"
    and "p \<noteq> []" and "p \<noteq> drop (path_index v) (path v)"
  shows "reroute_vehicle ext s v =
           v\<lparr> path := p, path_index := 0,
               next_node := (if 1 < length p then Some (p ! 1) else None),
               reroute_count := reroute_count v + 1,
               target_speed := speed_multiplier v, status := MOVING \<rparr>"
  using assms by (simp add: reroute_vehicle_def set_path_def increment_reroute_def Let_def)

lemma reroute_vehicle_keeps:
  assumes "a_star ext (graph s) (heuristic_coords s) (traffic_multipliers s)
             (current_node v) (goal_node v) (VehicleType_value (vtype v)) = (p, c)"
    and "p = [] \<or> p = drop (path_index v) (path v)"
  shows "reroute_vehicle ext s v = v"
  using assms by (auto simp add: reroute_vehicle_def)

text \<open>
  C3, as the code has it. When the path finder returns a non-empty path that differs from
  the remaining tail of the current path, \<open>_reroute_vehicle\<close> installs the new path with the
  cursor at 0, sets the next node to the second node of the new path when there is one,
  increments the reroute count by one, sets the target speed to the speed of the kind and
  the status to \<open>MOVING\<close>; the position on the edge is left as it was. When the path finder
  returns no path or the same tail, the vehicle is unchanged.
\<close>

theorem reroute_vehicle_effect:
  assumes "a_star ext (graph s) (heuristic_coords s) (traffic_multipliers s)
             (current_node v) (goal_node v) (VehicleType_value (vtype v)) = (p, c)"
  shows "(p \<noteq> [] \<and> p \<noteq> drop (path_index v) (path v) \<longrightarrow>
            path (reroute_vehicle ext s v) = p
          \<and> path_index (reroute_vehicle ext s v) = 0
          \<and> (2 \<le> length p \<longrightarrow> next_node (reroute_vehicle ext s v) = Some (p ! 1))
          \<and> reroute_count (reroute_vehicle ext s v) = reroute_count v + 1
          \<and> target_speed (reroute_vehicle ext s v) = speed_multiplier v
          \<and> (speed_multiplier v = SPEED_MULTIPLIERS (vtype v) \<longrightarrow>
               target_speed (reroute_vehicle ext s v) = SPEED_MULTIPLIERS (vtype v))
          \<and> status (reroute_vehicle ext s v) = MOVING
          \<and> position_on_edge (reroute_vehicle ext s v) = position_on_edge v)
       \<and> (p = [] \<or> p = drop (path_index v) (path v) \<longrightarrow> reroute_vehicle ext s v = v)"
proof (intro conjI impI)
  assume "p = [] \<or> p = drop (path_index v) (path v)"
  then show "reroute_vehicle ext s v = v"
    using assms by (rule reroute_vehicle_keeps[rotated])
qed (simp_all add: reroute_vehicle_adopts[OF assms])

theorem reroute_vehicle_effect_witness:
  "a_star ex_ext (graph ex_blocked_AB) (heuristic_coords ex_blocked_AB) (traffic_multipliers ex_blocked_AB)
      (current_node ex_car) (goal_node ex_car) (VehicleType_value (vtype ex_car)) = ([''A'', ''C'', ''D''], 4)
   \<and> [''A'', ''C'', ''D''] \<noteq> drop (path_index ex_car) (path ex_car)
   \<and> speed_multiplier ex_car = SPEED_MULTIPLIERS (vtype ex_car)
   \<and> path (reroute_vehicle ex_ext ex_blocked_AB ex_car) = [''A'', ''C'', ''D'']
   \<and> path_index (reroute_vehicle ex_ext ex_blocked_AB ex_car) = 0
   \<and> next_node (reroute_vehicle ex_ext ex_blocked_AB ex_car) = Some ''C''
   \<and> reroute_count (reroute_vehicle ex_ext ex_blocked_AB ex_car) = 1
   \<and> target_speed (reroute_vehicle ex_ext ex_blocked_AB ex_car) = 30
   \<and> status (reroute_vehicle ex_ext ex_blocked_AB ex_car) = MOVING"
proof -
  have r: "a_star ex_ext (graph ex_blocked_AB) (heuristic_coords ex_blocked_AB) (traffic_multipliers ex_blocked_AB)
      (current_node ex_car) (goal_node ex_car) (VehicleType_value (vtype ex_car)) = ([''A'', ''C'', ''D''], 4)"
    by (simp add: ex_ext_def ex_a_star_def ex_blocked_AB_fields ex_car_fields)
  show ?thesis
    using reroute_vehicle_effect[OF r] r by (simp add: ex_car_fields)
qed

text \<open>
  The claim C3 as stated fails: the car of the example is halfway along the blocked edge
  from A to B, the path finder returns the other route, the route is adopted, and the
  position on the edge is still one half.
\<close>

lemma ex_reroute_AB:
  "reroute_vehicle ex_ext ex_blocked_AB (ex_car\<lparr> position_on_edge := 1 / 2 \<rparr>)
     = ex_car\<lparr> position_on_edge := 1 / 2, path := [''A'', ''C'', ''D''], next_node := Some ''C'',
               reroute_count := 1 \<rparr>"
  by (simp add: reroute_vehicle_def ex_ext_def ex_a_star_def ex_blocked_AB_fields ex_car_eq
      set_path_def increment_reroute_def Let_def)

theorem reroute_position_counterexample:
  "fst (a_star ex_ext (graph ex_blocked_AB) (heuristic_coords ex_blocked_AB)
          (traffic_multipliers ex_blocked_AB) ''A'' ''D'' ''car'') = [''A'', ''C'', ''D'']
   \<and> drop (path_index (ex_car\<lparr> position_on_edge := 1 / 2 \<rparr>)) (path (ex_car\<lparr> position_on_edge := 1 / 2 \<rparr>))
       = [''A'', ''B'', ''D'']
   \<and> path (reroute_vehicle ex_ext ex_blocked_AB (ex_car\<lparr> position_on_edge := 1 / 2 \<rparr>)) = [''A'', ''C'', ''D'']
   \<and> position_on_edge (reroute_vehicle ex_ext ex_blocked_AB (ex_car\<lparr> position_on_edge := 1 / 2 \<rparr>)) = 1 / 2
   \<and> position_on_edge (reroute_vehicle ex_ext ex_blocked_AB (ex_car\<lparr> position_on_edge := 1 / 2 \<rparr>)) \<noteq> 0"
  by (simp add: ex_reroute_AB)
     (simp add: ex_ext_def ex_a_star_def ex_blocked_AB_fields ex_car_fields)

section \<open>Path cursor\<close>









section \<open>Failure reports\<close>

text \<open>
  C6. \<open>create_accident\<close> with an explicit edge that is not in the graph raises \<open>KeyError\<close>
  instead of returning \<open>None\<close>, and has by then stored the accident.
\<close>

theorem create_accident_unknown_edge_raises:
  "fst (create_accident (ex_accident_draws Minor) (Some ''X'') (Some ''Y'') ex_sim) = Raised KeyError
   \<and> map fst (accidents (snd (create_accident (ex_accident_draws Minor) (Some ''X'') (Some ''Y'') ex_sim)))
       = [''accident_1'']"
  by (simp add: create_accident_def record_accident_def ex_sim_fields Let_def str_nat_1)

text \<open>The other commands named by the claim do report failure by their return value.\<close>

lemma resolve_accident_unknown:
  "map_of (accidents s) accident_id = None \<Longrightarrow> resolve_accident accident_id s = (Returned False, s)"
  by (simp add: resolve_accident_def)

lemma block_road_unknown:
  "traffic_multipliers s (f, t) = None \<Longrightarrow> block_road f t r now s = (False, s)"
  by (simp add: block_road_def Let_def domIff)

lemma unblock_road_unblocked:
  "blocked_roads s (f, t) = None \<Longrightarrow> unblock_road f t s = (False, s)"
  by (simp add: unblock_road_def Let_def domIff)

lemma spawn_vehicle_empty_graph:
  "graph s = [] \<Longrightarrow> spawn_vehicle ext d vt a b (c, s) = (None, c, s)"
  by (simp add: spawn_vehicle_def)

section \<open>Reset\<close>

text \<open>
  C4. After \<open>reset_simulation\<close> the blocked road and the accident of the example are still
  recorded, while the multipliers of their edges are back at 1.0.
\<close>

theorem reset_keeps_incidents_and_blocks:
  "blocked_roads (snd (reset_simulation (3, ex_busy))) (''A'', ''B'') \<noteq> None
   \<and> map fst (accidents (snd (reset_simulation (3, ex_busy)))) = [''accident_1'']
   \<and> traffic_multipliers (snd (reset_simulation (3, ex_busy))) (''A'', ''B'') = Some f_1_0
   \<and> traffic_multipliers (snd (reset_simulation (3, ex_busy))) (''A'', ''C'') = Some f_1_0"
  by (simp add: reset_simulation_def VehicleManager_reset_def initialize_traffic_multipliers_def
      ex_busy_def create_accident_def record_accident_def block_road_def ex_sim_fields Let_def
      str_nat_1 ex_graph_edges DEFAULT_TRAFFIC_MULTIPLIER_def)

text \<open>What \<open>reset_simulation\<close> does reset.\<close>

lemma foldl_default_multiplier:
  "foldl (\<lambda>m e. m(e \<mapsto> d)) m0 es e = (if e \<in> set es then Some d else m0 e)"
  by (induction es arbitrary: m0) auto

lemma reset_simulation_resets:
  "fst (reset_simulation cs) = 0"
  "simulation_step (snd (reset_simulation cs)) = 0"
  "total_spawned (snd (reset_simulation cs)) = 0"
  "vehicles (vehicle_manager (snd (reset_simulation cs))) = Map.empty"
  "active_vehicles (vehicle_manager (snd (reset_simulation cs))) = []"
  "edge_occupancy (vehicle_manager (snd (reset_simulation cs))) = Map.empty"
  "e \<in> set (graph_edges (graph (snd cs)))
     \<Longrightarrow> traffic_multipliers (snd (reset_simulation cs)) e = Some f_1_0"
  "blocked_roads (snd (reset_simulation cs)) = blocked_roads (snd cs)"
  "accidents (snd (reset_simulation cs)) = accidents (snd cs)"
  by (simp_all add: reset_simulation_def VehicleManager_reset_def initialize_traffic_multipliers_def
      foldl_default_multiplier DEFAULT_TRAFFIC_MULTIPLIER_def Let_def)

section \<open>Binary64 arithmetic of the multipliers\<close>









section \<open>Accidents\<close>


lemma record_accident_known:
  assumes "traffic_multipliers s (f, t) = Some m"
  shows "record_accident d f t s =
     (Returned (Some \<lparr> acc_id = ''accident_'' @ str_nat (accident_counter s + 1), acc_from_node = f,
                        acc_to_node = t, acc_severity = pick_severity d,
                        acc_created_at = pick_created_at d, acc_duration = pick_duration d \<rparr>),
      s\<lparr> accident_counter := accident_counter s + 1,
         accidents := AList.update (''accident_'' @ str_nat (accident_counter s + 1))
            \<lparr> acc_id = ''accident_'' @ str_nat (accident_counter s + 1), acc_from_node = f,
              acc_to_node = t, acc_severity = pick_severity d,
              acc_created_at = pick_created_at d, acc_duration = pick_duration d \<rparr> (accidents s),
         traffic_multipliers := (traffic_multipliers s)((f, t) \<mapsto> b64_mul m (severity_multipliers (pick_severity d))) \<rparr>)"
  using assms by (simp add: record_accident_def Let_def)

lemma create_accident_explicit:
  "create_accident d (Some f) (Some t) s = record_accident d f t s"
  by (simp add: create_accident_def)







section \<open>Blocked roads\<close>


lemma block_road_success:
  assumes "block_road f t r now s = (True, s')"
  shows "traffic_multipliers s' (f, t) = Some f_100_0" "(f, t) \<in> dom (blocked_roads s')"
  using assms by (auto simp: block_road_def Let_def split: if_splits)

lemma record_accident_multipliers:
  assumes "record_accident d f t s = (out, s')"
  shows "blocked_roads s' = blocked_roads s"
    and "traffic_multipliers s' e = traffic_multipliers s e
         \<or> (\<exists>acc m. out = Returned (Some acc) \<and> (acc_from_node acc, acc_to_node acc) = e
                \<and> traffic_multipliers s e = Some m
                \<and> traffic_multipliers s' e = Some (b64_mul m (severity_multipliers (acc_severity acc))))"
  using assms by (auto simp: record_accident_def Let_def split: option.splits)

lemma create_accident_multipliers:
  assumes "create_accident d fa ta s = (out, s')"
  shows "blocked_roads s' = blocked_roads s"
    and "traffic_multipliers s' e = traffic_multipliers s e
         \<or> (\<exists>acc m. out = Returned (Some acc) \<and> (acc_from_node acc, acc_to_node acc) = e
                \<and> traffic_multipliers s e = Some m
                \<and> traffic_multipliers s' e = Some (b64_mul m (severity_multipliers (acc_severity acc))))"
proof -
  consider (none) "s' = s" | (rec) f t where "record_accident d f t s = (out, s')"
    using assms by (auto simp: create_accident_def Let_def split: if_splits)
  then show "blocked_roads s' = blocked_roads s"
    by cases (simp_all add: record_accident_multipliers(1))
  consider (none) "s' = s" | (rec) f t where "record_accident d f t s = (out, s')"
    using assms by (auto simp: create_accident_def Let_def split: if_splits)
  then show "traffic_multipliers s' e = traffic_multipliers s e
         \<or> (\<exists>acc m. out = Returned (Some acc) \<and> (acc_from_node acc, acc_to_node acc) = e
                \<and> traffic_multipliers s e = Some m
                \<and> traffic_multipliers s' e = Some (b64_mul m (severity_multipliers (acc_severity acc))))"
  proof cases
    case none
    then show ?thesis by simp
  next
    case rec
    then show ?thesis by (rule record_accident_multipliers(2))
  qed
qed

lemma resolve_accident_multipliers:
  assumes "resolve_accident accident_id s = (out, s')"
  shows "blocked_roads s' = blocked_roads s"
    and "traffic_multipliers s' e = traffic_multipliers s e
         \<or> (\<exists>acc m m'. map_of (accidents s) accident_id = Some acc
                \<and> (acc_from_node acc, acc_to_node acc) = e
                \<and> traffic_multipliers s e = Some m
                \<and> b64_div m (severity_multipliers (acc_severity acc)) = Some m'
                \<and> traffic_multipliers s' e = Some m')"
  using assms by (auto simp: resolve_accident_def Let_def split: option.splits if_splits)

lemma foldl_hotspot_step_other:
  "e \<notin> fst ` set eis \<Longrightarrow> foldl (hotspot_step cf pen) m eis e = m e"
  by (induction eis arbitrary: m) (auto simp: hotspot_step_def Let_def split: option.splits)

lemma hotspot_drift_other:
  "blocked_roads (hotspot_drift cf pen s) = blocked_roads s"
  "e \<notin> set (congestion_points s) \<Longrightarrow> traffic_multipliers (hotspot_drift cf pen s) e = traffic_multipliers s e"
proof -
  show "blocked_roads (hotspot_drift cf pen s) = blocked_roads s"
    by (simp add: hotspot_drift_def)
  assume "e \<notin> set (congestion_points s)"
  then have "e \<notin> fst ` set (zip (congestion_points s) [0 ..< length (congestion_points s)])"
    by (auto dest: set_zip_leftD)
  then show "traffic_multipliers (hotspot_drift cf pen s) e = traffic_multipliers s e"
    by (simp add: hotspot_drift_def foldl_hotspot_step_other)
qed

text \<open>
  C2, as the code has it. A successful \<open>block_road\<close> sets the multiplier of the edge to 100.0
  and records the edge as blocked. Creating and resolving accidents and the drift of the
  hotspots leave the set of blocked roads as it is; they leave the multiplier of an edge as
  it is when they work on another edge, and otherwise multiply it by the severity factor,
  divide it by that factor, and replace it by the smoothed value, blocked or not.
\<close>

theorem blocked_multiplier:
  "(block_road f t r now s = (True, sb) \<longrightarrow>
       traffic_multipliers sb (f, t) = Some f_100_0 \<and> b64_val f_100_0 = 100
     \<and> (f, t) \<in> dom (blocked_roads sb))
   \<and> (create_accident d fa ta s = (oa, sa) \<longrightarrow>
       blocked_roads sa = blocked_roads s
     \<and> (traffic_multipliers sa e = traffic_multipliers s e
        \<or> (\<exists>acc m. oa = Returned (Some acc) \<and> (acc_from_node acc, acc_to_node acc) = e
                \<and> traffic_multipliers s e = Some m
                \<and> traffic_multipliers sa e = Some (b64_mul m (severity_multipliers (acc_severity acc))))))
   \<and> (resolve_accident accident_id s = (ob, sc) \<longrightarrow>
       blocked_roads sc = blocked_roads s
     \<and> (traffic_multipliers sc e = traffic_multipliers s e
        \<or> (\<exists>acc m m'. map_of (accidents s) accident_id = Some acc
                \<and> (acc_from_node acc, acc_to_node acc) = e
                \<and> traffic_multipliers s e = Some m
                \<and> b64_div m (severity_multipliers (acc_severity acc)) = Some m'
                \<and> traffic_multipliers sc e = Some m')))
   \<and> blocked_roads (hotspot_drift cf pen s) = blocked_roads s
   \<and> (e \<notin> set (congestion_points s) \<longrightarrow>
        traffic_multipliers (hotspot_drift cf pen s) e = traffic_multipliers s e)"
proof (intro conjI impI)
  show "b64_val f_100_0 = 100" by (simp add: b64_val_def f_100_0_def)
next
  assume "create_accident d fa ta s = (oa, sa)"
  then show "traffic_multipliers sa e = traffic_multipliers s e
        \<or> (\<exists>acc m. oa = Returned (Some acc) \<and> (acc_from_node acc, acc_to_node acc) = e
                \<and> traffic_multipliers s e = Some m
                \<and> traffic_multipliers sa e = Some (b64_mul m (severity_multipliers (acc_severity acc))))"
    by (rule create_accident_multipliers(2))
next
  assume "resolve_accident accident_id s = (ob, sc)"
  then show "traffic_multipliers sc e = traffic_multipliers s e
        \<or> (\<exists>acc m m'. map_of (accidents s) accident_id = Some acc
                \<and> (acc_from_node acc, acc_to_node acc) = e
                \<and> traffic_multipliers s e = Some m
                \<and> b64_div m (severity_multipliers (acc_severity acc)) = Some m'
                \<and> traffic_multipliers sc e = Some m')"
    by (rule resolve_accident_multipliers(2))
qed (simp_all add: block_road_success create_accident_multipliers(1) resolve_accident_multipliers(1)
      hotspot_drift_other)

lemma ex_f_100_times_2: "b64_mul f_100_0 f_2_0 = B64 25 3"
  by (simp add: b64_mul_def round53_def f_100_0_def f_2_0_def compute_bitlen)

text \<open>
  The claim C2 as stated fails: an accident of minor severity on the blocked edge from A to
  B doubles its multiplier, from 100.0 to 200.0, while the edge is still blocked.
\<close>

theorem blocked_multiplier_counterexample:
  "block_road ''A'' ''B'' ''road_work'' 1 (snd (snd ex_spawned)) = (True, ex_blocked_AB)
   \<and> traffic_multipliers ex_blocked_AB (''A'', ''B'') = Some (B64 25 2)
   \<and> fst (create_accident (ex_accident_draws Minor) (Some ''A'') (Some ''B'') ex_blocked_AB)
       = Returned (Some \<lparr> acc_id = ''accident_1'', acc_from_node = ''A'', acc_to_node = ''B'',
                          acc_severity = Minor, acc_created_at = 0, acc_duration = 30 \<rparr>)
   \<and> blocked_roads ex_blocked_then_accident (''A'', ''B'') \<noteq> None
   \<and> traffic_multipliers ex_blocked_then_accident (''A'', ''B'') = Some (B64 25 3)
   \<and> b64_val (B64 25 3) = 200
   \<and> b64_val (B64 25 3) \<noteq> 100"
proof -
  have blk: "block_road ''A'' ''B'' ''road_work'' 1 (snd (snd ex_spawned)) = (True, ex_blocked_AB)"
    by (simp add: ex_blocked_AB_def block_road_def ex_spawned_eq ex_sim_fields Let_def)
  have cnt: "accident_counter ex_blocked_AB = 0" "accidents ex_blocked_AB = []"
    by (simp_all add: ex_blocked_AB_def block_road_def ex_spawned_eq ex_sim_fields Let_def)
  show ?thesis
    unfolding ex_blocked_then_accident_def create_accident_explicit
      record_accident_known[OF ex_blocked_AB_fields(3)]
    by (simp add: blk ex_blocked_AB_fields cnt ex_accident_draws_def str_nat_1 ex_f_100_times_2
        b64_val_def f_100_0_def[symmetric])
qed

text \<open>
  The blocked edge of the example keeps the multiplier 100.0 under the drift of the
  hotspots, of which it is none, and under an accident on the edge from A to C.
\<close>

theorem blocked_multiplier_witness:
  "block_road ''A'' ''B'' ''road_work'' 1 (snd (snd ex_spawned)) = (True, ex_blocked_AB)
   \<and> traffic_multipliers ex_blocked_AB (''A'', ''B'') = Some f_100_0
   \<and> (''A'', ''B'') \<in> dom (blocked_roads ex_blocked_AB)
   \<and> (''A'', ''B'') \<notin> set (congestion_points ex_blocked_AB)
   \<and> traffic_multipliers (hotspot_drift 1 (\<lambda>i. f_2_0) ex_blocked_AB) (''A'', ''B'') = Some f_100_0
   \<and> traffic_multipliers
        (snd (create_accident (ex_accident_draws Severe) (Some ''A'') (Some ''C'') ex_blocked_AB))
        (''A'', ''B'') = Some f_100_0"
proof -
  have blk: "block_road ''A'' ''B'' ''road_work'' 1 (snd (snd ex_spawned)) = (True, ex_blocked_AB)"
    by (simp add: ex_blocked_AB_def block_road_def ex_spawned_eq ex_sim_fields Let_def)
  have cp: "(''A'', ''B'') \<notin> set (congestion_points ex_blocked_AB)"
    by (simp add: ex_blocked_AB_def block_road_def ex_spawned_eq ex_sim_fields Let_def)
  obtain out1 s1 where c: "create_accident (ex_accident_draws Severe) (Some ''A'') (Some ''C'') ex_blocked_AB = (out1, s1)"
    by (cases "create_accident (ex_accident_draws Severe) (Some ''A'') (Some ''C'') ex_blocked_AB")
  have other: "\<And>acc. out1 = Returned (Some acc) \<Longrightarrow> (acc_from_node acc, acc_to_node acc) \<noteq> (''A'', ''B'')"
    using c by (auto simp: create_accident_def record_accident_def Let_def split: option.splits)
  have T1: "traffic_multipliers ex_blocked_AB (''A'', ''B'') = Some f_100_0
            \<and> b64_val f_100_0 = 100 \<and> (''A'', ''B'') \<in> dom (blocked_roads ex_blocked_AB)"
    using blocked_multiplier[where f = "''A''" and t = "''B''" and r = "''road_work''" and now = 1
        and s = "snd (snd ex_spawned)" and sb = ex_blocked_AB, THEN conjunct1] blk
    by simp
  have T2: "traffic_multipliers s1 (''A'', ''B'') = traffic_multipliers ex_blocked_AB (''A'', ''B'')"
    using blocked_multiplier[where s = ex_blocked_AB and d = "ex_accident_draws Severe"
        and fa = "Some ''A''" and ta = "Some ''C''" and oa = out1 and sa = s1
        and e = "(''A'', ''B'')", THEN conjunct2, THEN conjunct1] c other
    by auto
  have T3: "traffic_multipliers (hotspot_drift 1 (\<lambda>i. f_2_0) ex_blocked_AB) (''A'', ''B'')
            = traffic_multipliers ex_blocked_AB (''A'', ''B'')"
    using blocked_multiplier[where s = ex_blocked_AB and e = "(''A'', ''B'')" and cf = 1
        and pen = "\<lambda>i. f_2_0", THEN conjunct2, THEN conjunct2, THEN conjunct2, THEN conjunct2] cp
    by simp
  show ?thesis using blk cp T1 T2 T3 c by simp
qed

section \<open>Identifiers\<close>


lemma digit_char_inj: "a < 10 \<Longrightarrow> b < 10 \<Longrightarrow> digit_char a = digit_char b \<Longrightarrow> a = b"
proof -
  assume a: "a < 10" and b: "b < 10" and eq: "digit_char a = digit_char b"
  have A: "a \<in> {0,1,2,3,4,5,6,7,8,9}" using a by auto
  have B: "b \<in> {0,1,2,3,4,5,6,7,8,9}" using b by auto
  show ?thesis using A B eq by (auto simp: digit_char_def)
qed

lemma digit_char_not_underscore: "a < 10 \<Longrightarrow> digit_char a \<noteq> CHR ''_''"
proof -
  assume a: "a < 10"
  have A: "a \<in> {0,1,2,3,4,5,6,7,8,9}" using a by auto
  then show ?thesis by (auto simp: digit_char_def)
qed

lemma str_nat_nonempty: "str_nat n \<noteq> []"
  by (subst str_nat.simps) simp

lemma str_nat_no_underscore: "CHR ''_'' \<notin> set (str_nat n)"
proof (induction n rule: str_nat.induct)
  case (1 n)
  show ?case
  proof (cases "n < 10")
    case True
    then show ?thesis
      using digit_char_not_underscore[of n] by (subst str_nat.simps) auto
  next
    case False
    have "n mod 10 < 10" by simp
    then have "digit_char (n mod 10) \<noteq> CHR ''_''" by (rule digit_char_not_underscore)
    with False 1 show ?thesis by (subst str_nat.simps) auto
  qed
qed

lemma str_nat_inj: "str_nat n = str_nat m \<Longrightarrow> n = m"
proof (induction n arbitrary: m rule: str_nat.induct)
  case (1 n)
  show ?case
  proof (cases "n < 10")
    case True
    note n = this
    show ?thesis
    proof (cases "m < 10")
      case True
      with n 1(2) show ?thesis
        by (simp add: str_nat.simps[of n] str_nat.simps[of m] digit_char_inj)
    next
      case False
      with n 1(2) have "[digit_char n] = str_nat (m div 10) @ [digit_char (m mod 10)]"
        by (simp add: str_nat.simps[of n] str_nat.simps[of m])
      then show ?thesis using str_nat_nonempty[of "m div 10"] by simp
    qed
  next
    case False
    note n = this
    show ?thesis
    proof (cases "m < 10")
      case True
      with n 1(2) have "str_nat (n div 10) @ [digit_char (n mod 10)] = [digit_char m]"
        by (simp add: str_nat.simps[of n] str_nat.simps[of m])
      then show ?thesis using str_nat_nonempty[of "n div 10"] by simp
    next
      case False
      with n 1(2) have eq: "str_nat (n div 10) @ [digit_char (n mod 10)]
                           = str_nat (m div 10) @ [digit_char (m mod 10)]"
        by (simp add: str_nat.simps[of n] str_nat.simps[of m])
      then have "str_nat (n div 10) = str_nat (m div 10)"
        and d: "digit_char (n mod 10) = digit_char (m mod 10)" by simp_all
      then have "n div 10 = m div 10" using 1(1)[OF n] by simp
      moreover have "n mod 10 = m mod 10"
        using d by (intro digit_char_inj) simp_all
      ultimately show ?thesis by (metis div_mult_mod_eq)
    qed
  qed
qed

lemma suffix_after_underscore:
  assumes "CHR ''_'' \<notin> set a" and "CHR ''_'' \<notin> set b" and "p @ ''_'' @ a = q @ ''_'' @ b"
  shows "a = b"
proof -
  have "rev a @ CHR ''_'' # rev p = rev b @ CHR ''_'' # rev q"
    using arg_cong[OF assms(3), of rev] by simp
  then have "takeWhile (\<lambda>c. c \<noteq> CHR ''_'') (rev a @ CHR ''_'' # rev p)
           = takeWhile (\<lambda>c. c \<noteq> CHR ''_'') (rev b @ CHR ''_'' # rev q)" by simp
  moreover have "takeWhile (\<lambda>c. c \<noteq> CHR ''_'') (rev a @ CHR ''_'' # rev p) = rev a"
    using assms(1) by (subst takeWhile_append2) auto
  moreover have "takeWhile (\<lambda>c. c \<noteq> CHR ''_'') (rev b @ CHR ''_'' # rev q) = rev b"
    using assms(2) by (subst takeWhile_append2) auto
  ultimately show ?thesis by simp
qed

lemma vehicle_id_inj:
  "VehicleType_value vt @ ''_'' @ str_nat n = VehicleType_value vt' @ ''_'' @ str_nat m \<Longrightarrow> n = m"
  using suffix_after_underscore[OF str_nat_no_underscore str_nat_no_underscore] str_nat_inj
  by blast

lemma Vehicle_init_id:
  "fst (Vehicle_init c vt a b pa) = c + 1"
  "vid (snd (Vehicle_init c vt a b pa)) = VehicleType_value vt @ ''_'' @ str_nat (c + 1)"
  by (simp_all add: Vehicle_init_def Let_def)

lemma set_path_vid: "vid (set_path p v) = vid v"
  by (simp add: set_path_def Let_def)

lemma spawn_vehicle_counter:
  assumes "spawn_vehicle ext d vt sa ga (c, s) = (res, c', s')"
  shows "c \<le> c'"
    and "res = Some v \<Longrightarrow> c' = c + 1 \<and> vid v = VehicleType_value vt @ ''_'' @ str_nat (c + 1)"
  using assms
  by (auto simp: spawn_vehicle_def Let_def Vehicle_init_def set_path_vid split: if_splits prod.splits)

lemma spawn_vehicle_no_path:
  assumes "graph s \<noteq> []"
    and "fst (a_star ext (graph s) (heuristic_coords s) (traffic_multipliers s) a b (VehicleType_value vt)) = []"
  shows "spawn_vehicle ext d vt (Some a) (Some b) (c, s) = (None, c + 1, s)"
  using assms by (simp add: spawn_vehicle_def Let_def Vehicle_init_def case_prod_beta)

lemma spawn_in_counter:
  assumes "spawn_in ext r p = (res, p')"
  shows "id_counter p \<le> id_counter p'"
    and "res = Some v \<Longrightarrow> id_counter p' = id_counter p + 1
           \<and> vid v = VehicleType_value (req_type r) @ ''_'' @ str_nat (id_counter p + 1)"
proof -
  show "id_counter p \<le> id_counter p'"
  proof (cases "req_simulator r < length (simulators p)")
    case True
    obtain res0 c s where sp: "spawn_vehicle ext (req_draws r) (req_type r) (req_start r) (req_goal r)
        (id_counter p, simulators p ! req_simulator r) = (res0, c, s)"
      by (metis prod_cases3)
    with True assms have "id_counter p' = c" by (auto simp: spawn_in_def)
    with spawn_vehicle_counter(1)[OF sp] show ?thesis by simp
  next
    case False
    with assms show ?thesis by (simp add: spawn_in_def)
  qed
  assume some: "res = Some v"
  then have lt: "req_simulator r < length (simulators p)"
    using assms by (auto simp: spawn_in_def split: if_splits)
  obtain res0 c s where sp: "spawn_vehicle ext (req_draws r) (req_type r) (req_start r) (req_goal r)
      (id_counter p, simulators p ! req_simulator r) = (res0, c, s)"
    by (metis prod_cases3)
  with lt assms have "id_counter p' = c" "res0 = res" by (auto simp: spawn_in_def)
  with spawn_vehicle_counter(2)[OF sp, of v] some
  show "id_counter p' = id_counter p + 1
           \<and> vid v = VehicleType_value (req_type r) @ ''_'' @ str_nat (id_counter p + 1)"
    by simp
qed

lemma spawn_all_numbered:
  "spawn_all ext rs p = (vs, p') \<Longrightarrow>
     id_counter p \<le> id_counter p'
   \<and> (\<forall>v \<in> set vs. \<exists>n vt. id_counter p < n \<and> n \<le> id_counter p'
                        \<and> vid v = VehicleType_value vt @ ''_'' @ str_nat n)
   \<and> distinct (map vid vs)"
proof (induction rs arbitrary: p vs p')
  case Nil
  then show ?case by simp
next
  case (Cons r rs)
  obtain res p1 where s1: "spawn_in ext r p = (res, p1)" by (cases "spawn_in ext r p")
  obtain ws p2 where s2: "spawn_all ext rs p1 = (ws, p2)" by (cases "spawn_all ext rs p1")
  from Cons.prems s1 s2 have p': "p' = p2" and vs: "vs = (case res of None \<Rightarrow> ws | Some v \<Rightarrow> v # ws)"
    by simp_all
  note IH = Cons.IH[OF s2]
  have le1: "id_counter p \<le> id_counter p1" by (rule spawn_in_counter(1)[OF s1])
  show ?case
  proof (cases res)
    case None
    have "\<forall>w \<in> set ws. \<exists>n vt. id_counter p < n \<and> n \<le> id_counter p2
                        \<and> vid w = VehicleType_value vt @ ''_'' @ str_nat n"
    proof
      fix w assume "w \<in> set ws"
      with IH obtain n vt where "id_counter p1 < n" "n \<le> id_counter p2"
        "vid w = VehicleType_value vt @ ''_'' @ str_nat n" by blast
      with le1 show "\<exists>n vt. id_counter p < n \<and> n \<le> id_counter p2
                        \<and> vid w = VehicleType_value vt @ ''_'' @ str_nat n"
        by (intro exI[of _ n] exI[of _ vt]) simp
    qed
    with IH le1 show ?thesis unfolding vs p' None by simp
  next
    case (Some v)
    from spawn_in_counter(2)[OF s1 Some]
    have c1: "id_counter p1 = id_counter p + 1"
      and idv: "vid v = VehicleType_value (req_type r) @ ''_'' @ str_nat (id_counter p + 1)"
      by simp_all
    have fresh: "vid v \<notin> vid ` set ws"
    proof
      assume "vid v \<in> vid ` set ws"
      then obtain w where w: "w \<in> set ws" "vid w = vid v" by auto
      with IH obtain n vt where n: "id_counter p1 < n" "vid w = VehicleType_value vt @ ''_'' @ str_nat n"
        by blast
      with w idv have "n = id_counter p + 1" using vehicle_id_inj by metis
      with n c1 show False by simp
    qed
    have bound: "\<forall>w \<in> set (v # ws). \<exists>n vt. id_counter p < n \<and> n \<le> id_counter p2
                        \<and> vid w = VehicleType_value vt @ ''_'' @ str_nat n"
    proof
      fix w assume "w \<in> set (v # ws)"
      then consider "w = v" | "w \<in> set ws" by auto
      then show "\<exists>n vt. id_counter p < n \<and> n \<le> id_counter p2
                        \<and> vid w = VehicleType_value vt @ ''_'' @ str_nat n"
      proof cases
        case 1
        with idv c1 IH show ?thesis by (intro exI[of _ "id_counter p + 1"] exI[of _ "req_type r"]) simp
      next
        case 2
        with IH obtain n vt where "id_counter p1 < n" "n \<le> id_counter p2"
          "vid w = VehicleType_value vt @ ''_'' @ str_nat n" by blast
        with c1 show ?thesis by (intro exI[of _ n] exI[of _ vt]) simp
      qed
    qed
    from IH le1 fresh bound show ?thesis
      unfolding vs p' Some by simp
  qed
qed

lemma reset_in_counter: "i < length (simulators p) \<Longrightarrow> id_counter (reset_in i p) = 0"
  by (simp add: reset_in_def reset_simulation_def VehicleManager_reset_def Let_def split: prod.splits)


lemma str_nat_digit: "n < 10 \<Longrightarrow> str_nat n = [digit_char n]"
  by (subst str_nat.simps) simp

lemma ex_like_sim: "ex_like ex_sim"
  by (simp add: ex_like_def ex_sim_fields)

lemma spawn_vehicle_keeps:
  "graph (snd (snd (spawn_vehicle ext d vt sa ga (c, s)))) = graph s"
  "traffic_multipliers (snd (snd (spawn_vehicle ext d vt sa ga (c, s)))) = traffic_multipliers s"
  by (simp_all add: spawn_vehicle_def Let_def case_prod_beta)

lemma ex_like_route:
  assumes "ex_like s"
  shows "fst (a_star ex_ext (graph s) (heuristic_coords s) (traffic_multipliers s) ''A'' ''D'' ''car'')
           = [''A'', ''B'', ''D'']"
    and "fst (a_star ex_ext (graph s) (heuristic_coords s) (traffic_multipliers s) ''D'' ''A'' ''car'') = []"
    and "graph s \<noteq> []"
  using assms by (simp_all add: ex_like_def ex_ext_def ex_a_star_def ex_sim_fields f_1_0_def f_100_0_def
      ex_graph_def)

lemma spawn_in_ex_ok:
  assumes "i < length (simulators p)" and "ex_like (simulators p ! i)"
  shows "\<exists>v p'. spawn_in ex_ext (ex_request i ''A'' ''D'') p = (Some v, p')
          \<and> vid v = ''car_'' @ str_nat (id_counter p + 1)
          \<and> id_counter p' = id_counter p + 1
          \<and> length (simulators p') = length (simulators p)
          \<and> ex_like (simulators p' ! i)
          \<and> (\<forall>j. j \<noteq> i \<longrightarrow> simulators p' ! j = simulators p ! j)"
proof -
  let ?s = "simulators p ! i"
  obtain res c s' where sp: "spawn_vehicle ex_ext ex_spawn_draws CAR (Some ''A'') (Some ''D'')
      (id_counter p, ?s) = (res, c, s')"
    by (metis prod_cases3)
  have "res \<noteq> None"
    using sp ex_like_route[OF assms(2)]
    by (auto simp: spawn_vehicle_def Let_def case_prod_beta split: if_splits)
  then obtain v where v: "res = Some v" by auto
  from spawn_vehicle_counter(2)[OF sp v]
  have c: "c = id_counter p + 1" and idv: "vid v = ''car_'' @ str_nat (id_counter p + 1)" by simp_all
  have like: "ex_like s'"
    using spawn_vehicle_keeps[of ex_ext ex_spawn_draws CAR "Some ''A''" "Some ''D''" "id_counter p" ?s]
      assms(2) sp by (simp add: ex_like_def)
  have "spawn_in ex_ext (ex_request i ''A'' ''D'') p
      = (Some v, p\<lparr> id_counter := c, simulators := (simulators p)[i := s'] \<rparr>)"
    using assms(1) sp v by (simp add: spawn_in_def ex_request_def)
  with c idv like assms(1) show ?thesis by simp
qed

lemma spawn_in_ex_fail:
  assumes "i < length (simulators p)" and "ex_like (simulators p ! i)"
  shows "spawn_in ex_ext (ex_request i ''D'' ''A'') p = (None, p\<lparr> id_counter := id_counter p + 1 \<rparr>)"
proof -
  have "spawn_vehicle ex_ext ex_spawn_draws CAR (Some ''D'') (Some ''A'') (id_counter p, simulators p ! i)
      = (None, id_counter p + 1, simulators p ! i)"
    using ex_like_route[OF assms(2)] by (intro spawn_vehicle_no_path) simp_all
  then show ?thesis using assms(1) by (simp add: spawn_in_def ex_request_def)
qed

lemma ex_spawn_run:
  "\<exists>v1 v3 p3. spawn_all ex_ext ex_requests ex_process = ([v1, v3], p3)
      \<and> vid v1 = ''car_1'' \<and> vid v3 = ''car_3''
      \<and> length (simulators p3) = 2 \<and> ex_like (simulators p3 ! 1)"
proof -
  have p0: "0 < length (simulators ex_process)" "ex_like (simulators ex_process ! 0)"
    "length (simulators ex_process) = 2" "simulators ex_process ! 1 = ex_sim" "id_counter ex_process = 0"
    by (simp_all add: ex_process_def ex_like_sim)
  from spawn_in_ex_ok[OF p0(1,2)] obtain v1 p1 where
    s1: "spawn_in ex_ext (ex_request 0 ''A'' ''D'') ex_process = (Some v1, p1)"
    and v1: "vid v1 = ''car_'' @ str_nat (id_counter ex_process + 1)"
    and c1: "id_counter p1 = id_counter ex_process + 1"
    and l1: "length (simulators p1) = length (simulators ex_process)"
    and o1: "\<forall>j. j \<noteq> 0 \<longrightarrow> simulators p1 ! j = simulators ex_process ! j"
    by blast
  have p1: "1 < length (simulators p1)" "ex_like (simulators p1 ! 1)"
    using l1 o1 p0 by (simp_all add: ex_like_sim)
  define p2 where "p2 = p1\<lparr> id_counter := id_counter p1 + 1 \<rparr>"
  have s2: "spawn_in ex_ext (ex_request 1 ''D'' ''A'') p1 = (None, p2)"
    unfolding p2_def by (rule spawn_in_ex_fail[OF p1])
  have p2: "1 < length (simulators p2)" "ex_like (simulators p2 ! 1)" "id_counter p2 = 2"
    using p1 c1 p0 by (simp_all add: p2_def)
  from spawn_in_ex_ok[OF p2(1,2)] obtain v3 p3 where
    s3: "spawn_in ex_ext (ex_request 1 ''A'' ''D'') p2 = (Some v3, p3)"
    and v3: "vid v3 = ''car_'' @ str_nat (id_counter p2 + 1)"
    and l3: "length (simulators p3) = length (simulators p2)"
    and k3: "ex_like (simulators p3 ! 1)"
    by blast
  have n: "str_nat (Suc 0) = ''1''" "str_nat 3 = ''3''"
    by (simp_all add: str_nat_digit digit_char_def)
  have "spawn_all ex_ext ex_requests ex_process = ([v1, v3], p3)"
    by (simp add: ex_requests_def s1 s2[unfolded One_nat_def] s3[unfolded One_nat_def])
  moreover have "vid v1 = ''car_1''" "vid v3 = ''car_3''"
    using v1 v3 p0(5) p2(3) n by simp_all
  moreover have "length (simulators p3) = 2"
    using l3 l1 p0(3) by (simp add: p2_def)
  ultimately show ?thesis using k3 by blast
qed

lemma ex_spawn_all_ids:
  "map vid (fst (spawn_all ex_ext ex_requests ex_process)) = [''car_1'', ''car_3'']"
  using ex_spawn_run by auto

lemma reset_in_other:
  "j \<noteq> i \<Longrightarrow> simulators (reset_in i p) ! j = simulators p ! j"
  "length (simulators (reset_in i p)) = length (simulators p)"
  by (simp_all add: reset_in_def Let_def case_prod_beta)

text \<open>
  C10. Every construction of a vehicle increments the one counter and names the vehicle by
  the new value; a spawn whose path search fails has incremented the counter and registers
  nothing; vehicles constructed at different counter values have different identifiers,
  and the vehicles registered by any sequence of spawns, in any simulators of the process,
  have pairwise different identifiers; the registered numbers need not be consecutive (in
  the example they are 1 and 3); and a reset of one simulator sets the counter to zero for
  all of them: the next vehicle spawned in any simulator has the number 1.
\<close>

theorem id_counter_shared:
  "fst (Vehicle_init c vt a b pa) = c + 1
   \<and> vid (snd (Vehicle_init c vt a b pa)) = VehicleType_value vt @ ''_'' @ str_nat (c + 1)
   \<and> (graph s \<noteq> []
        \<and> fst (a_star ext (graph s) (heuristic_coords s) (traffic_multipliers s) a b (VehicleType_value vt)) = []
      \<longrightarrow> spawn_vehicle ext d vt (Some a) (Some b) (c, s) = (None, c + 1, s))
   \<and> (c \<noteq> c' \<longrightarrow> vid (snd (Vehicle_init c vt a b pa)) \<noteq> vid (snd (Vehicle_init c' vt' a' b' pa')))
   \<and> distinct (map vid (fst (spawn_all ext rs p)))
   \<and> map vid (fst (spawn_all ex_ext ex_requests ex_process)) = [''car_1'', ''car_3'']
   \<and> (i < length (simulators p) \<longrightarrow>
         id_counter (reset_in i p) = 0
       \<and> (\<forall>r v p'. spawn_in ext r (reset_in i p) = (Some v, p')
             \<longrightarrow> vid v = VehicleType_value (req_type r) @ ''_1''))"
proof (intro conjI impI allI)
  show "distinct (map vid (fst (spawn_all ext rs p)))"
    using spawn_all_numbered[of ext rs p] by (cases "spawn_all ext rs p") simp
next
  assume "c \<noteq> c'"
  then show "vid (snd (Vehicle_init c vt a b pa)) \<noteq> vid (snd (Vehicle_init c' vt' a' b' pa'))"
    using vehicle_id_inj[of vt "c + 1" vt' "c' + 1"] by (auto simp: Vehicle_init_id)
next
  fix r v p'
  assume i: "i < length (simulators p)" and sp: "spawn_in ext r (reset_in i p) = (Some v, p')"
  from spawn_in_counter(2)[OF sp refl] reset_in_counter[OF i]
  show "vid v = VehicleType_value (req_type r) @ ''_1''"
    by (simp add: str_nat_digit digit_char_def)
next
  assume "graph s \<noteq> []
        \<and> fst (a_star ext (graph s) (heuristic_coords s) (traffic_multipliers s) a b (VehicleType_value vt)) = []"
  then show "spawn_vehicle ext d vt (Some a) (Some b) (c, s) = (None, c + 1, s)"
    by (simp add: spawn_vehicle_no_path)
qed (simp_all add: Vehicle_init_id ex_spawn_all_ids reset_in_counter)

text \<open>
  In the example a car from D to A finds no path, and the counter goes from 7 to 8; after
  the three requests and a reset of the first simulator, the next car of the second
  simulator is \<open>car_1\<close>.
\<close>

theorem id_counter_shared_witness:
  "graph ex_sim \<noteq> []
   \<and> fst (a_star ex_ext (graph ex_sim) (heuristic_coords ex_sim) (traffic_multipliers ex_sim)
            ''D'' ''A'' (VehicleType_value CAR)) = []
   \<and> spawn_vehicle ex_ext ex_spawn_draws CAR (Some ''D'') (Some ''A'') (7, ex_sim) = (None, 8, ex_sim)
   \<and> (7::nat) \<noteq> 8
   \<and> vid (snd (Vehicle_init 7 CAR ''D'' ''A'' None)) \<noteq> vid (snd (Vehicle_init 8 CAR ''A'' ''D'' None))
   \<and> 0 < length (simulators (snd (spawn_all ex_ext ex_requests ex_process)))
   \<and> id_counter (reset_in 0 (snd (spawn_all ex_ext ex_requests ex_process))) = 0
   \<and> map_option vid (fst (spawn_in ex_ext (ex_request 1 ''A'' ''D'')
                             (reset_in 0 (snd (spawn_all ex_ext ex_requests ex_process)))))
       = Some ''car_1''"
proof -
  have g: "graph ex_sim \<noteq> []" by (simp add: ex_sim_fields ex_graph_def)
  have np: "fst (a_star ex_ext (graph ex_sim) (heuristic_coords ex_sim) (traffic_multipliers ex_sim)
            ''D'' ''A'' (VehicleType_value CAR)) = []"
    by (simp add: ex_ext_def ex_a_star_def)
  define p where "p = snd (spawn_all ex_ext ex_requests ex_process)"
  from ex_spawn_run have len: "length (simulators p) = 2" and like: "ex_like (simulators p ! 1)"
    by (auto simp: p_def)
  have i: "0 < length (simulators p)" by (simp add: len)
  have "1 < length (simulators (reset_in 0 p))" "ex_like (simulators (reset_in 0 p) ! 1)"
    using len like by (simp_all add: reset_in_other)
  from spawn_in_ex_ok[OF this] obtain v p' where
    sp: "spawn_in ex_ext (ex_request 1 ''A'' ''D'') (reset_in 0 p) = (Some v, p')" by blast
  note T = id_counter_shared[where c = 7 and c' = 8 and vt = CAR and vt' = CAR and a = "''D''" and b = "''A''"
      and a' = "''A''" and b' = "''D''" and pa = None and pa' = None
      and s = ex_sim and ext = ex_ext and d = ex_spawn_draws and i = 0 and p = p]
  have r: "req_type (ex_request 1 ''A'' ''D'') = CAR" by (simp add: ex_request_def)
  have T3: "spawn_vehicle ex_ext ex_spawn_draws CAR (Some ''D'') (Some ''A'') (7, ex_sim) = (None, 8, ex_sim)"
    using T[THEN conjunct2, THEN conjunct2, THEN conjunct1] g np by simp
  have T4: "vid (snd (Vehicle_init 7 CAR ''D'' ''A'' None)) \<noteq> vid (snd (Vehicle_init 8 CAR ''A'' ''D'' None))"
    using T[THEN conjunct2, THEN conjunct2, THEN conjunct2, THEN conjunct1] by simp
  have T67: "id_counter (reset_in 0 p) = 0
       \<and> (\<forall>r v p'. spawn_in ex_ext r (reset_in 0 p) = (Some v, p')
             \<longrightarrow> vid v = VehicleType_value (req_type r) @ ''_1'')"
    using T[THEN conjunct2, THEN conjunct2, THEN conjunct2, THEN conjunct2, THEN conjunct2,
            THEN conjunct2] i by blast
  from T67 sp have "vid v = VehicleType_value (req_type (ex_request 1 ''A'' ''D'')) @ ''_1''" by blast
  then have vv: "vid v = ''car_1''" by (simp add: ex_request_def)
  have last: "map_option vid (fst (spawn_in ex_ext (ex_request 1 ''A'' ''D'') (reset_in 0 p))) = Some ''car_1''"
    using sp vv by simp
  show ?thesis
    unfolding p_def[symmetric] using g np i T3 T4 T67[THEN conjunct1] last by simp
qed

section \<open>The first pass of the tick\<close>







lemma slow_down_cursor:
  "path (slow_down_for_vehicle_ahead d m v) = path v"
  "path_index (slow_down_for_vehicle_ahead d m v) = path_index v"
  "reroute_count (slow_down_for_vehicle_ahead d m v) = reroute_count v"
  "next_node (slow_down_for_vehicle_ahead d m v) = next_node v"
  "current_node (slow_down_for_vehicle_ahead d m v) = current_node v"
  by (simp_all add: slow_down_for_vehicle_ahead_def Let_def)











section \<open>Kinematic bounds\<close>













































end
